theory Spec2Isabelle
  imports Complex_Main "HOL-Library.AList" "HOL-Library.Sublist"
begin

section \<open>JavaScript numbers\<close>

text \<open>
  A finite JavaScript Number is an IEEE 754 binary64 value. It is modelled by the real
  number it denotes; every arithmetic operation computes the exact result and rounds it
  to the nearest binary64 value, ties to the even significand. All operands of the two
  components lie in the interval from 0 to 100, so overflow, NaN and negative zero do
  not arise and are not modelled.

  \<open>rne\<close> rounds a real to the nearest integer, ties to even.
\<close>

definition rne :: "real \<Rightarrow> int" where
  "rne q = (let n = \<lfloor>q\<rfloor>; d = q - of_int n in
     if d < 1 / 2 then n else if 1 / 2 < d then n + 1 else if even n then n else n + 1)"

text \<open>
  The binary exponent of a non-negative value: the \<open>e\<close> with \<open>2 ^ e \<le> x < 2 ^ (e + 1)\<close>,
  found by halving or doubling, and held at the smallest normal exponent \<open>-1022\<close> for
  subnormal values and for zero.
\<close>

fun expo_up :: "nat \<Rightarrow> real \<Rightarrow> int" where
  "expo_up 0 x = 0"
| "expo_up (Suc n) x = (if x < 2 then 0 else expo_up n (x / 2) + 1)"

fun expo_down :: "nat \<Rightarrow> real \<Rightarrow> int" where
  "expo_down 0 x = 0"
| "expo_down (Suc n) x = (if 1 \<le> x then 0 else expo_down n (2 * x) - 1)"

definition expo :: "real \<Rightarrow> int" where
  "expo x = (if 1 \<le> x then expo_up 1024 x else expo_down 1022 x)"

text \<open>
  Rounding to binary64: the significand has 53 bits, so the spacing of the values with
  exponent \<open>e\<close> is \<open>2 ^ (e - 52)\<close>.
\<close>

definition fl :: "real \<Rightarrow> real" where
  "fl x = (let u = 2 powi (expo \<bar>x\<bar> - 52) in of_int (rne (x / u)) * u)"

definition is_double :: "real \<Rightarrow> bool" where
  "is_double x \<longleftrightarrow> fl x = x"

text \<open>A decimal literal of the source denotes the binary64 value nearest to it.\<close>

definition js_lit :: "real \<Rightarrow> real" where
  "js_lit x = fl x"

definition js_mul :: "real \<Rightarrow> real \<Rightarrow> real" where
  "js_mul a b = fl (a * b)"

definition js_add :: "real \<Rightarrow> real \<Rightarrow> real" where
  "js_add a b = fl (a + b)"

definition math_floor :: "real \<Rightarrow> int" where
  "math_floor x = \<lfloor>x\<rfloor>"

text \<open>
  \<open>Math.random()\<close> returns some binary64 value that is at least 0 and less than 1. The
  value drawn is an input of every function that calls it.
\<close>

definition math_random :: "real \<Rightarrow> bool" where
  "math_random r \<longleftrightarrow> is_double r \<and> 0 \<le> r \<and> r < 1"

text \<open>Reading an array at an index: \<open>undefined\<close> outside the array.\<close>

definition js_index :: "'a list \<Rightarrow> int \<Rightarrow> 'a option" where
  "js_index xs i = (if 0 \<le> i \<and> i < int (length xs) then Some (xs ! nat i) else None)"

text \<open>A Number state cell in a condition: \<open>null\<close> and \<open>0\<close> are falsy.\<close>

definition js_truthy :: "real option \<Rightarrow> bool" where
  "js_truthy v = (case v of None \<Rightarrow> False | Some x \<Rightarrow> x \<noteq> 0)"

datatype js_error = TypeError

section \<open>VoiceClassifierApp.jsx\<close>

text \<open>
  A \<open>File\<close> of the browser, as far as the component reads it, and the object
  \<open>{name, size, element}\<close> that \<open>handleDatasetUpload\<close> stores for it.
\<close>

record js_file =
  name :: string
  size' :: nat

record audio = js_file +
  element :: string

text \<open>The object pushed on \<open>datasets\<close> by \<open>saveProject\<close>.\<close>

record project =
  proj_name :: string
  proj_datasets :: "(string \<times> audio list) list"
  proj_accuracy :: "real option"
  proj_timestamp :: string

text \<open>
  The callbacks handed to \<open>setTimeout\<close> and not yet run. Neither callback closes over
  anything but the state setters, so a pending callback is known by its kind.
\<close>

datatype timer = TrainingTimer | ClassifyTimer

text \<open>
  The state of the component: its \<open>useState\<close> cells, the pending timers, and the
  uncaught exception that unmounted it, if any. \<open>audioFiles\<close> is an object with string
  keys in insertion order, that is an association list.
\<close>

record app =
  currentProject :: string
  datasets :: "project list"
  isTraining :: bool
  modelAccuracy :: "real option"
  audioFiles :: "(string \<times> audio list) list"
  newAudioForClassification :: "js_file option"
  prediction :: "string option"
  confidence :: "real option"
  timers :: "timer list"
  crashed :: "js_error option"

definition app_init :: app where
  "app_init = \<lparr>currentProject = ''Progetto 1'', datasets = [], isTraining = False,
     modelAccuracy = None,
     audioFiles = [(''aria'', []), (''acqua'', []), (''terra'', []), (''fuoco'', [])],
     newAudioForClassification = None, prediction = None, confidence = None,
     timers = [], crashed = None\<rparr>"

text \<open>
  \<open>handleDatasetUpload\<close>: \<open>prev[element]\<close> is \<open>undefined\<close> for a key the object does
  not have, and spreading \<open>undefined\<close> into an array throws a TypeError.
\<close>

definition handleDatasetUpload :: "string \<Rightarrow> js_file list \<Rightarrow> app \<Rightarrow> js_error + app" where
  "handleDatasetUpload el files s =
     (let newFiles = map (\<lambda>f. \<lparr>name = name f, size' = size' f, element = el\<rparr>) files
      in case map_of (audioFiles s) el of
           None \<Rightarrow> Inl TypeError
         | Some old \<Rightarrow> Inr (s\<lparr>audioFiles := AList.update el (old @ newFiles) (audioFiles s)\<rparr>))"

definition startTraining :: "app \<Rightarrow> app" where
  "startTraining s = s\<lparr>isTraining := True, timers := timers s @ [TrainingTimer]\<rparr>"

text \<open>The callback of \<open>startTraining\<close>; \<open>r\<close> is the value of \<open>Math.random()\<close>.\<close>

definition training_timeout :: "real \<Rightarrow> app \<Rightarrow> app" where
  "training_timeout r s =
     s\<lparr>isTraining := False,
       modelAccuracy := Some (js_add (js_mul r (js_lit (5 / 100))) (js_lit (95 / 100)))\<rparr>"

definition classifyNewAudio :: "js_file \<Rightarrow> app \<Rightarrow> app" where
  "classifyNewAudio f s =
     s\<lparr>newAudioForClassification := Some f, timers := timers s @ [ClassifyTimer]\<rparr>"

definition elements :: "string list" where
  "elements = [''aria'', ''acqua'', ''terra'', ''fuoco'']"

text \<open>
  The callback of \<open>classifyNewAudio\<close>; \<open>r1\<close> and \<open>r2\<close> are its two values of
  \<open>Math.random()\<close>, in the order of the calls.
\<close>

definition classify_timeout :: "real \<Rightarrow> real \<Rightarrow> app \<Rightarrow> app" where
  "classify_timeout r1 r2 s =
     (let randomElement = js_index elements (math_floor (js_mul r1 (of_nat (length elements))))
      in s\<lparr>prediction := randomElement,
           confidence := Some (js_add (js_mul r2 (js_lit (1 / 10))) (js_lit (9 / 10)))\<rparr>)"

text \<open>\<open>saveProject\<close>; \<open>ts\<close> is the value of \<open>new Date().toISOString()\<close>.\<close>

definition saveProject :: "string \<Rightarrow> app \<Rightarrow> app" where
  "saveProject ts s =
     s\<lparr>datasets := datasets s @
         [\<lparr>proj_name = currentProject s, proj_datasets = audioFiles s,
           proj_accuracy = modelAccuracy s, proj_timestamp = ts\<rparr>]\<rparr>"

text \<open>The \<open>disabled\<close> attributes of the training button and of the classification input.\<close>

definition train_disabled :: "app \<Rightarrow> bool" where
  "train_disabled s \<longleftrightarrow> isTraining s \<or> list_all (\<lambda>arr. length arr = 0) (map snd (audioFiles s))"

definition classify_disabled :: "app \<Rightarrow> bool" where
  "classify_disabled s \<longleftrightarrow> \<not> js_truthy (modelAccuracy s)"

text \<open>
  What can happen to the mounted component: a file selection under a class, a click on
  the training button, a pending timer running, a file selection for classification, an
  edit of the project name, a click on the save button. A disabled control delivers no
  event, a timer runs only while it is pending, and after an uncaught exception the
  component is unmounted and handles nothing more.
\<close>

datatype app_event =
    Upload string "js_file list"
  | ClickTrain
  | TrainingDone real
  | ChooseAudio js_file
  | ClassifyDone real real
  | Rename string
  | Save string

fun app_handle :: "app \<Rightarrow> app_event \<Rightarrow> js_error + app" where
  "app_handle s (Upload el files) = handleDatasetUpload el files s"
| "app_handle s ClickTrain = Inr (if train_disabled s then s else startTraining s)"
| "app_handle s (TrainingDone r) =
     Inr (if TrainingTimer \<in> set (timers s)
          then training_timeout r (s\<lparr>timers := remove1 TrainingTimer (timers s)\<rparr>) else s)"
| "app_handle s (ChooseAudio f) = Inr (if classify_disabled s then s else classifyNewAudio f s)"
| "app_handle s (ClassifyDone r1 r2) =
     Inr (if ClassifyTimer \<in> set (timers s)
          then classify_timeout r1 r2 (s\<lparr>timers := remove1 ClassifyTimer (timers s)\<rparr>) else s)"
| "app_handle s (Rename n) = Inr (s\<lparr>currentProject := n\<rparr>)"
| "app_handle s (Save ts) = Inr (saveProject ts s)"

definition app_step :: "app \<Rightarrow> app_event \<Rightarrow> app" where
  "app_step s ev =
     (if crashed s \<noteq> None then s
      else case app_handle s ev of Inl e \<Rightarrow> s\<lparr>crashed := Some e\<rparr> | Inr s' \<Rightarrow> s')"

fun app_run :: "app \<Rightarrow> app_event list \<Rightarrow> app" where
  "app_run s [] = s"
| "app_run s (ev # evs) = app_run (app_step s ev) evs"

text \<open>
  The reading of "a sample appears in at most one class" on the component's state: no
  file name is filed under two different classes.
\<close>

definition names_in :: "(string \<times> audio list) list \<Rightarrow> string \<Rightarrow> string list" where
  "names_in af c = (case map_of af c of None \<Rightarrow> [] | Some xs \<Rightarrow> map name xs)"

definition one_class_per_sample :: "(string \<times> audio list) list \<Rightarrow> bool" where
  "one_class_per_sample af \<longleftrightarrow>
     (\<forall>c1 \<in> set (map fst af). \<forall>c2 \<in> set (map fst af).
        c1 \<noteq> c2 \<longrightarrow> set (names_in af c1) \<inter> set (names_in af c2) = {})"

text \<open>Every stored object carries the class it is filed under.\<close>

definition labelled :: "(string \<times> audio list) list \<Rightarrow> bool" where
  "labelled af \<longleftrightarrow> list_all (\<lambda>(c, xs). list_all (\<lambda>a. element a = c) xs) af"

definition pending_trainings :: "app \<Rightarrow> nat" where
  "pending_trainings s = length (filter (\<lambda>t. t = TrainingTimer) (timers s))"

text \<open>The \<open>isTraining\<close> flag is set exactly while one training callback is pending.\<close>

definition timer_inv :: "app \<Rightarrow> bool" where
  "timer_inv s \<longleftrightarrow> pending_trainings s = (if isTraining s then 1 else 0)"

section \<open>VoiceLab.jsx\<close>

text \<open>
  The outcome of \<open>fetch\<close> followed by \<open>response.json()\<close>: the promise is rejected
  (no connection, or a body that is not JSON), or there is a response with its \<open>ok\<close>
  flag and its parsed body.
\<close>

datatype 'a fetched = Rejected | Response bool 'a

text \<open>An entry of \<open>result.files\<close>, as far as the component reads it.\<close>

record stored_file =
  filename :: string
  stored_size :: nat

text \<open>
  The body of \<open>/dashboard-data\<close>, with the properties that the component reads. The
  component tests \<open>status\<close> and renders the rest only when it is \<open>'ready'\<close>. A
  property that the body does not have is \<open>None\<close>; a property that is there has the
  shape the component expects. An entry of \<open>top_distinctive_features\<close> is a feature name
  with the \<open>distinctive_score\<close> of its \<open>stats\<close>.
\<close>

record dashboard_summary =
  elements_count :: "(string \<times> nat) list option"
  top_distinctive_features :: "(string \<times> real option) list option"

record profile =
  profile_count :: nat
  avg_duration :: "real option"

record recommendation =
  priority :: "string option"
  message :: string

record dashboard =
  status :: "string option"
  summary :: "dashboard_summary option"
  element_profiles :: "(string \<times> profile) list option"
  chart_data :: "(string \<times> (string \<times> real list) list) list option"
  recommendations :: "recommendation list option"

record lab =
  lab_audioFiles :: "(string \<times> stored_file list) list"
  dashboardData :: "dashboard option"
  lab_crashed :: "js_error option"

definition lab_init :: lab where
  "lab_init = \<lparr>lab_audioFiles = [(''aria'', []), (''acqua'', []), (''terra'', []), (''fuoco'', [])],
     dashboardData = None, lab_crashed = None\<rparr>"

text \<open>
  \<open>uploadFiles\<close>: the response's \<open>ok\<close> flag is not read. A rejected promise is caught
  and leaves the state as it is. The updater spreads \<open>prev[element]\<close> and
  \<open>result.files\<close>, and throws a TypeError when either is \<open>undefined\<close>.
\<close>

definition uploadFiles :: "string \<Rightarrow> stored_file list option fetched \<Rightarrow> lab \<Rightarrow> js_error + lab" where
  "uploadFiles el resp s =
     (case resp of
        Rejected \<Rightarrow> Inr s
      | Response ok result_files \<Rightarrow>
          (case (map_of (lab_audioFiles s) el, result_files) of
             (Some old, Some new) \<Rightarrow>
               Inr (s\<lparr>lab_audioFiles := AList.update el (old @ new) (lab_audioFiles s)\<rparr>)
           | _ \<Rightarrow> Inl TypeError))"

text \<open>
  \<open>removeFile\<close>: the list is filtered only when the response is \<open>ok\<close>; the updater
  calls \<open>filter\<close> on \<open>prev[element]\<close>, a TypeError when that is \<open>undefined\<close>.
\<close>

definition removeFile :: "string \<Rightarrow> string \<Rightarrow> unit fetched \<Rightarrow> lab \<Rightarrow> js_error + lab" where
  "removeFile fn el resp s =
     (case resp of
        Rejected \<Rightarrow> Inr s
      | Response ok body \<Rightarrow>
          if ok then
            (case map_of (lab_audioFiles s) el of
               None \<Rightarrow> Inl TypeError
             | Some old \<Rightarrow>
                 Inr (s\<lparr>lab_audioFiles :=
                   AList.update el (filter (\<lambda>f. filename f \<noteq> fn) old) (lab_audioFiles s)\<rparr>))
          else Inr s)"

definition loadDashboardData :: "dashboard option fetched \<Rightarrow> lab \<Rightarrow> lab" where
  "loadDashboardData resp s =
     (case resp of Rejected \<Rightarrow> s | Response ok data \<Rightarrow> s\<lparr>dashboardData := data\<rparr>)"

text \<open>
  The right-hand column of the page: the charts, or the initial placeholder. The charts
  branch reads \<open>summary.elements_count\<close>, the first five entries of
  \<open>summary.top_distinctive_features\<close> with the \<open>distinctive_score\<close> of each,
  \<open>element_profiles\<close> and \<open>chart_data\<close> without a guard, and the \<open>priority\<close> of
  every recommendation when there are recommendations; reading a property of
  \<open>undefined\<close> throws a TypeError. \<open>avg_duration\<close> is read with \<open>?.\<close> and may be
  missing.
\<close>

datatype panel = Charts dashboard | Placeholder

definition charts_render :: "dashboard \<Rightarrow> bool" where
  "charts_render d \<longleftrightarrow>
     (case summary d of
        None \<Rightarrow> False
      | Some sm \<Rightarrow>
          elements_count sm \<noteq> None \<and>
          (case top_distinctive_features sm of
             None \<Rightarrow> False
           | Some fs \<Rightarrow> list_all (\<lambda>(feature, score). score \<noteq> None) (take 5 fs)))
     \<and> element_profiles d \<noteq> None
     \<and> chart_data d \<noteq> None
     \<and> (case recommendations d of
           None \<Rightarrow> True
         | Some recs \<Rightarrow> list_all (\<lambda>r. priority r \<noteq> None) recs)"

definition dashboard_panel :: "lab \<Rightarrow> js_error + panel" where
  "dashboard_panel s =
     (case dashboardData s of
        None \<Rightarrow> Inr Placeholder
      | Some d \<Rightarrow>
          if status d = Some ''ready''
          then (if charts_render d then Inr (Charts d) else Inl TypeError)
          else Inr Placeholder)"

text \<open>
  Every state update is followed by a render of the component; an exception thrown
  there is not caught and unmounts it.
\<close>

definition rendered :: "lab \<Rightarrow> js_error + lab" where
  "rendered s = (case dashboard_panel s of Inl e \<Rightarrow> Inl e | Inr p \<Rightarrow> Inr s)"

datatype lab_event =
    UploadFiles string "stored_file list option fetched"
  | RemoveFile string string "unit fetched"
  | LoadDashboard "dashboard option fetched"

fun lab_handle :: "lab \<Rightarrow> lab_event \<Rightarrow> js_error + lab" where
  "lab_handle s (UploadFiles el resp) =
     (case uploadFiles el resp s of Inl e \<Rightarrow> Inl e | Inr s' \<Rightarrow> rendered s')"
| "lab_handle s (RemoveFile fn el resp) =
     (case removeFile fn el resp s of Inl e \<Rightarrow> Inl e | Inr s' \<Rightarrow> rendered s')"
| "lab_handle s (LoadDashboard resp) = rendered (loadDashboardData resp s)"

definition lab_step :: "lab \<Rightarrow> lab_event \<Rightarrow> lab" where
  "lab_step s ev =
     (if lab_crashed s \<noteq> None then s
      else case lab_handle s ev of Inl e \<Rightarrow> s\<lparr>lab_crashed := Some e\<rparr> | Inr s' \<Rightarrow> s')"

fun lab_run :: "lab \<Rightarrow> lab_event list \<Rightarrow> lab" where
  "lab_run s [] = s"
| "lab_run s (ev # evs) = lab_run (lab_step s ev) evs"

definition files_in :: "lab \<Rightarrow> string \<Rightarrow> stored_file list" where
  "files_in s c = (case map_of (lab_audioFiles s) c of None \<Rightarrow> [] | Some xs \<Rightarrow> xs)"

section \<open>The dashboard endpoint of the backend\<close>

text \<open>
  Modelled from the spec: the handler of \<open>GET /dashboard-data\<close> belongs to the backend,
  whose sources are not in the repository's visible files. The specification says that
  it returns chart aggregates and recommendations, and that it fails gracefully with a
  "not ready" status if no analysis has run yet. The argument is the summary of the last
  analysis, if one has run.
\<close>

definition dashboard_data :: "dashboard option \<Rightarrow> dashboard" where
  "dashboard_data last_analysis =
     (case last_analysis of
        None \<Rightarrow> \<lparr>status = Some ''not ready'', summary = None, element_profiles = None,
                 chart_data = None, recommendations = None\<rparr>
      | Some d \<Rightarrow> d\<lparr>status := Some ''ready''\<rparr>)"

section \<open>Rounding: evaluation and monotonicity\<close>

lemma expo_down_num:
  "expo_down (numeral k) x = (if 1 \<le> x then 0 else expo_down (pred_numeral k) (2 * x) - 1)"
  by (simp add: numeral_eq_Suc)

lemma expo_up_num:
  "expo_up (numeral k) x = (if x < 2 then 0 else expo_up (pred_numeral k) (x / 2) + 1)"
  by (simp add: numeral_eq_Suc)

lemmas fl_eval = fl_def expo_def rne_def Let_def expo_down_num expo_up_num power_int_minus

lemma rne_bounds: "\<lfloor>q\<rfloor> \<le> rne q \<and> rne q \<le> \<lfloor>q\<rfloor> + 1"
  by (simp add: rne_def Let_def)

lemma rne_of_int: "rne (of_int n) = n"
  by (simp add: rne_def)

lemma rne_mono: assumes "q \<le> q'" shows "rne q \<le> rne q'"
proof (cases "\<lfloor>q\<rfloor> = \<lfloor>q'\<rfloor>")
  case True
  then show ?thesis using assms by (auto simp: rne_def Let_def)
next
  case False
  then have "\<lfloor>q\<rfloor> < \<lfloor>q'\<rfloor>" using assms floor_mono[OF assms] by linarith
  then show ?thesis using rne_bounds[of q] rne_bounds[of q'] by linarith
qed

lemma pow2_succ: "(2::real) powi (k + 1) = 2 * 2 powi k"
  by (simp add: power_int_add)

lemma pow2_succ2: "(2::real) powi (2 + k) = 4 * 2 powi k"
  using power_int_add[of "2::real" 2 k] by simp

lemma pow2_pred: "(2::real) powi (k - 1) = 2 powi k / 2"
  by (simp add: power_int_diff)

lemma expo_down_spec:
  "x < 1 \<Longrightarrow> 
   - int (Suc n) \<le> expo_down (Suc n) x \<and> expo_down (Suc n) x \<le> -1 \<and> x < 2 powi (expo_down (Suc n) x + 1)
     \<and> (- int (Suc n) < expo_down (Suc n) x \<longrightarrow> 2 powi (expo_down (Suc n) x) \<le> x)"
proof (induction n arbitrary: x)
  case 0
  then show ?case by simp
next
  case (Suc n)
  show ?case
  proof (cases "2 * x < 1")
    case True
    define e where "e = expo_down (Suc n) (2 * x)"
    have eq: "expo_down (Suc (Suc n)) x = e - 1"
      using Suc.prems unfolding e_def by (subst expo_down.simps(2)) simp
    from Suc.IH[OF True] have ih: "- int (Suc n) \<le> e" "e \<le> -1" "2 * x < 2 powi (e + 1)"
       "- int (Suc n) < e \<longrightarrow> 2 powi e \<le> 2 * x"
      unfolding e_def by blast+
    show ?thesis unfolding eq using ih
      by (auto simp: pow2_succ pow2_pred)
  next
    case False
    then show ?thesis using Suc.prems by (simp add: power_int_minus)
  qed
qed

lemma expo_up_spec:
  "1 \<le> x \<Longrightarrow> x < 2 ^ n \<Longrightarrow>
   0 \<le> expo_up n x \<and> expo_up n x < int n \<and> 2 powi (expo_up n x) \<le> x \<and> x < 2 powi (expo_up n x + 1)"
proof (induction n arbitrary: x)
  case 0
  then show ?case by simp
next
  case (Suc n)
  show ?case
  proof (cases "x < 2")
    case True
    then show ?thesis using Suc.prems by simp
  next
    case False
    then have h: "1 \<le> x / 2" "x / 2 < 2 ^ n" using Suc.prems by auto
    define e where "e = expo_up n (x / 2)"
    have eq: "expo_up (Suc n) x = e + 1"
      using False unfolding e_def by simp
    from Suc.IH[OF h] have ih: "0 \<le> e" "e < int n" "2 powi e \<le> x / 2" "x / 2 < 2 powi (e + 1)"
      unfolding e_def by blast+
    show ?thesis unfolding eq using ih
      by (auto simp: pow2_succ pow2_succ2)
  qed
qed

lemma expo_spec:
  assumes "0 \<le> x" "x < 2 ^ 1024"
  shows "- 1022 \<le> expo x" "x < 2 powi (expo x + 1)" "- 1022 < expo x \<Longrightarrow> 2 powi (expo x) \<le> x"
proof -
  have "- 1022 \<le> expo x \<and> x < 2 powi (expo x + 1) \<and> (- 1022 < expo x \<longrightarrow> 2 powi (expo x) \<le> x)"
  proof (cases "1 \<le> x")
    case True
    then show ?thesis using expo_up_spec[OF True assms(2)] by (simp add: expo_def)
  next
    case False
    then have "x < 1" by simp
    from expo_down_spec[OF this, of 1021] show ?thesis using False by (simp add: expo_def)
  qed
  then show "- 1022 \<le> expo x" "x < 2 powi (expo x + 1)" "- 1022 < expo x \<Longrightarrow> 2 powi (expo x) \<le> x"
    by blast+
qed

lemma pow2_pos: "0 < (2::real) powi k"
  by simp

lemma fl_at: "0 \<le> x \<Longrightarrow> fl x = of_int (rne (x / 2 powi (expo x - 52))) * 2 powi (expo x - 52)"
  by (simp add: fl_def Let_def)

lemma pow2_scale53: "of_int (2 ^ 53) * (2::real) powi (e - 52) = 2 powi (e + 1)"
proof -
  have "(2::real) powi (53 + (e - 52)) = 2 powi 53 * 2 powi (e - 52)"
    by (rule power_int_add) simp
  moreover have "53 + (e - 52) = e + 1" by simp
  ultimately have "(2::real) powi (e + 1) = 2 powi 53 * 2 powi (e - 52)" by simp
  then show ?thesis by simp
qed

lemma pow2_scale52: "of_int (2 ^ 52) * (2::real) powi (e - 52) = 2 powi e"
proof -
  have "(2::real) powi (52 + (e - 52)) = 2 powi 52 * 2 powi (e - 52)"
    by (rule power_int_add) simp
  then have "(2::real) powi e = 2 powi 52 * 2 powi (e - 52)" by simp
  then show ?thesis by simp
qed

lemma fl_upper:
  assumes "0 \<le> x" "x < 2 ^ 1024"
  shows "fl x \<le> 2 powi (expo x + 1)"
proof -
  let ?u = "(2::real) powi (expo x - 52)"
  have "x / ?u \<le> 2 powi (expo x + 1) / ?u"
    using expo_spec(2)[OF assms] by (simp add: divide_right_mono)
  moreover have "2 powi (expo x + 1) / ?u = of_int (2 ^ 53)"
    using pow2_scale53[of "expo x"] by (simp add: field_simps)
  ultimately have "x / ?u \<le> of_int (2 ^ 53)" by simp
  then have "rne (x / ?u) \<le> rne (of_int (2 ^ 53))" by (rule rne_mono)
  then have "rne (x / ?u) \<le> 2 ^ 53" by (simp only: rne_of_int)
  then have "(of_int (rne (x / ?u)) :: real) \<le> of_int (2 ^ 53)"
    by (simp only: of_int_le_iff)
  then have "of_int (rne (x / ?u)) * ?u \<le> of_int (2 ^ 53) * ?u"
    by (rule mult_right_mono) simp
  then have "of_int (rne (x / ?u)) * ?u \<le> 2 powi (expo x + 1)"
    by (simp only: pow2_scale53)
  then show ?thesis by (simp only: fl_at[OF assms(1)])
qed

lemma fl_lower:
  assumes "0 \<le> x" "x < 2 ^ 1024" "- 1022 < expo x"
  shows "2 powi (expo x) \<le> fl x"
proof -
  let ?u = "(2::real) powi (expo x - 52)"
  have "2 powi (expo x) / ?u \<le> x / ?u"
    using expo_spec(3)[OF assms] by (simp add: divide_right_mono)
  moreover have "2 powi (expo x) / ?u = of_int (2 ^ 52)"
    using pow2_scale52[of "expo x"] by (simp add: field_simps)
  ultimately have "of_int (2 ^ 52) \<le> x / ?u" by simp
  then have "rne (of_int (2 ^ 52)) \<le> rne (x / ?u)" by (rule rne_mono)
  then have "2 ^ 52 \<le> rne (x / ?u)" by (simp only: rne_of_int)
  then have "(of_int (2 ^ 52) :: real) \<le> of_int (rne (x / ?u))"
    by (simp only: of_int_le_iff)
  then have "of_int (2 ^ 52) * ?u \<le> of_int (rne (x / ?u)) * ?u"
    by (rule mult_right_mono) simp
  then have "2 powi (expo x) \<le> of_int (rne (x / ?u)) * ?u"
    by (simp only: pow2_scale52)
  then show ?thesis by (simp only: fl_at[OF assms(1)])
qed

lemma fl_mono:
  assumes "0 \<le> x" "x \<le> y" "y < 2 ^ 1024"
  shows "fl x \<le> fl y"
proof -
  have x: "0 \<le> x" "x < 2 ^ 1024" and y: "0 \<le> y" "y < 2 ^ 1024" using assms by auto
  consider "expo x = expo y" | "expo x < expo y" | "expo y < expo x" by linarith
  then show ?thesis
  proof cases
    case 1
    have "x / 2 powi (expo y - 52) \<le> y / 2 powi (expo y - 52)"
      using assms(2) by (simp add: divide_right_mono)
    from rne_mono[OF this] show ?thesis
      by (simp add: fl_at[OF x(1)] fl_at[OF y(1)] 1)
  next
    case 2
    have "fl x \<le> 2 powi (expo x + 1)" by (rule fl_upper[OF x])
    also have "\<dots> \<le> 2 powi (expo y)" using 2 by (intro power_int_increasing) auto
    also have "\<dots> \<le> fl y" using fl_lower[OF y] expo_spec(1)[OF x] 2 by simp
    finally show ?thesis .
  next
    case 3
    have "y < 2 powi (expo y + 1)" by (rule expo_spec(2)[OF y])
    also have "\<dots> \<le> 2 powi (expo x)" using 3 by (intro power_int_increasing) auto
    also have "\<dots> \<le> x" using expo_spec(3)[OF x] expo_spec(1)[OF y] 3 by simp
    finally show ?thesis using assms(2) by simp
  qed
qed


lemma fl_0: "fl 0 = 0"
  by (simp add: fl_def rne_def)

lemma fl_nonneg: assumes "0 \<le> x" "x < 2 ^ 1024" shows "0 \<le> fl x"
  using fl_mono[of 0 x] assms by (simp add: fl_0)

lemma affine_bounds:
  assumes r: "0 \<le> r" "r < 1" and a: "0 \<le> a" "fl a = a" and b: "0 \<le> b" "fl b = b"
    and ab: "a + b < 2 ^ 1024"
  shows "b \<le> fl (fl (r * a) + b)" "fl (fl (r * a) + b) \<le> fl (a + b)"
proof -
  have ra: "0 \<le> r * a" "r * a \<le> a" using r a by (auto simp: mult_left_le_one_le)
  have a': "a < 2 ^ 1024" using ab b by linarith
  have lo: "0 \<le> fl (r * a)" using fl_mono[of 0 "r * a"] ra a' by (simp add: fl_0)
  have hi: "fl (r * a) \<le> a" using fl_mono[of "r * a" a] ra a' a by simp
  have "fl b \<le> fl (fl (r * a) + b)" using lo hi b ab by (intro fl_mono) auto
  then show "b \<le> fl (fl (r * a) + b)" using b by simp
  show "fl (fl (r * a) + b) \<le> fl (a + b)" using lo hi b ab by (intro fl_mono) auto
qed

lemma lit_conf:
  "0 \<le> js_lit (1 / 10)" "fl (js_lit (1 / 10)) = js_lit (1 / 10)"
  "0 \<le> js_lit (9 / 10)" "fl (js_lit (9 / 10)) = js_lit (9 / 10)"
  "js_lit (1 / 10) + js_lit (9 / 10) < 2 ^ 1024"
  "fl (js_lit (1 / 10) + js_lit (9 / 10)) = 1"
  by (simp_all add: js_lit_def fl_eval)

lemma lit_acc:
  "0 \<le> js_lit (5 / 100)" "fl (js_lit (5 / 100)) = js_lit (5 / 100)"
  "0 \<le> js_lit (95 / 100)" "fl (js_lit (95 / 100)) = js_lit (95 / 100)"
  "js_lit (5 / 100) + js_lit (95 / 100) < 2 ^ 1024"
  "fl (js_lit (5 / 100) + js_lit (95 / 100)) = 1"
  by (simp_all add: js_lit_def fl_eval)

lemma confidence_bounds:
  assumes "math_random r"
  shows "js_lit (9 / 10) \<le> js_add (js_mul r (js_lit (1 / 10))) (js_lit (9 / 10))"
    and "js_add (js_mul r (js_lit (1 / 10))) (js_lit (9 / 10)) \<le> 1"
proof -
  have r: "0 \<le> r" "r < 1" using assms by (simp_all add: math_random_def)
  note ab = affine_bounds[OF r lit_conf(1-5)]
  show "js_lit (9 / 10) \<le> js_add (js_mul r (js_lit (1 / 10))) (js_lit (9 / 10))"
    unfolding js_add_def js_mul_def by (rule ab(1))
  show "js_add (js_mul r (js_lit (1 / 10))) (js_lit (9 / 10)) \<le> 1"
    unfolding js_add_def js_mul_def using ab(2) by (simp only: lit_conf(6))
qed

lemma accuracy_bounds:
  assumes "math_random r"
  shows "js_lit (95 / 100) \<le> js_add (js_mul r (js_lit (5 / 100))) (js_lit (95 / 100))"
    and "js_add (js_mul r (js_lit (5 / 100))) (js_lit (95 / 100)) \<le> 1"
proof -
  have r: "0 \<le> r" "r < 1" using assms by (simp_all add: math_random_def)
  note ab = affine_bounds[OF r lit_acc(1-5)]
  show "js_lit (95 / 100) \<le> js_add (js_mul r (js_lit (5 / 100))) (js_lit (95 / 100))"
    unfolding js_add_def js_mul_def by (rule ab(1))
  show "js_add (js_mul r (js_lit (5 / 100))) (js_lit (95 / 100)) \<le> 1"
    unfolding js_add_def js_mul_def using ab(2) by (simp only: lit_acc(6))
qed

text \<open>A binary64 value between one half and one is a multiple of \<open>2 ^ - 53\<close>.\<close>

lemma double_grid:
  assumes "is_double r" "1 / 2 \<le> r" "r < 1"
  shows "\<exists>n::int. r = of_int n / 2 ^ 53"
proof -
  have e: "expo \<bar>r\<bar> = - 1" using assms(2,3) by (simp add: expo_def expo_down_num)
  have "fl r = of_int (rne (r / 2 powi (- 53))) * 2 powi (- 53)"
    by (simp add: fl_def Let_def e)
  then have "r = of_int (rne (r / 2 powi (- 53))) / 2 ^ 53"
    using assms(1) by (simp add: is_double_def power_int_minus field_simps)
  then show ?thesis by blast
qed

lemma double_below:
  assumes "is_double r" "0 \<le> r" "r < of_int k / 2 ^ 53" "2 ^ 52 < k" "k \<le> 2 ^ 53"
  shows "r \<le> of_int (k - 1) / 2 ^ 53"
proof (cases "1 / 2 \<le> r")
  case True
  have "r < 1" using assms(3,5)
  proof -
    have "(of_int k :: real) \<le> of_int (2 ^ 53)" using assms(5) by (simp only: of_int_le_iff)
    then have "(of_int k :: real) / 2 ^ 53 \<le> 1" by simp
    then show ?thesis using assms(3) by linarith
  qed
  from double_grid[OF assms(1) True this] obtain n :: int where n: "r = of_int n / 2 ^ 53" by blast
  then have "(of_int n :: real) < of_int k" using assms(3) by (simp add: divide_less_cancel)
  then have "n \<le> k - 1" by simp
  then have "(of_int n :: real) \<le> of_int (k - 1)" by (simp only: of_int_le_iff)
  then show ?thesis unfolding n by (simp add: divide_right_mono)
next
  case False
  have "2 ^ 52 \<le> k - 1" using assms(4) by simp
  then have "(of_int (2 ^ 52) :: real) \<le> of_int (k - 1)" by (simp only: of_int_le_iff)
  then have "(1 / 2 :: real) \<le> of_int (k - 1) / 2 ^ 53" by simp
  then show ?thesis using False by linarith
qed

lemma index_bounds:
  assumes "math_random r"
  shows "0 \<le> math_floor (js_mul r 4)" "math_floor (js_mul r 4) \<le> 3"
    "math_floor (js_mul r 4) = 3 \<longleftrightarrow> 3 / 4 \<le> r"
proof -
  have r: "is_double r" "0 \<le> r" "r < 1" using assms by (simp_all add: math_random_def)
  have "fl 0 \<le> fl (r * 4)" using r by (intro fl_mono) auto
  then have lo: "0 \<le> fl (r * 4)" by (simp add: fl_0)
  then show "0 \<le> math_floor (js_mul r 4)" by (simp add: math_floor_def js_mul_def)
  have "r \<le> of_int (2 ^ 53 - 1) / 2 ^ 53"
    using double_below[OF r(1,2), of "2 ^ 53"] r(3) by simp
  then have "r * 4 \<le> 4 - 1 / 2 ^ 51" by simp
  then have "fl (r * 4) \<le> fl (4 - 1 / 2 ^ 51)" using r by (intro fl_mono) auto
  also have "fl (4 - 1 / 2 ^ 51) = 4 - 1 / 2 ^ 51" by (simp add: fl_eval)
  finally have hi: "fl (r * 4) < 4" by simp
  then show le3: "math_floor (js_mul r 4) \<le> 3" by (simp add: math_floor_def js_mul_def floor_le_iff)
  show "math_floor (js_mul r 4) = 3 \<longleftrightarrow> 3 / 4 \<le> r"
  proof
    assume "3 / 4 \<le> r"
    then have "fl 3 \<le> fl (r * 4)" using r by (intro fl_mono) auto
    moreover have "fl 3 = 3" by (simp add: fl_eval)
    ultimately have "3 \<le> math_floor (js_mul r 4)" by (simp add: math_floor_def js_mul_def le_floor_iff)
    then show "math_floor (js_mul r 4) = 3" using le3 by simp
  next
    assume eq: "math_floor (js_mul r 4) = 3"
    show "3 / 4 \<le> r"
    proof (rule ccontr)
      assume "\<not> 3 / 4 \<le> r"
      then have "r < of_int (3 * 2 ^ 51) / 2 ^ 53" by simp
      from double_below[OF r(1,2) this] have "r \<le> of_int (3 * 2 ^ 51 - 1) / 2 ^ 53" by simp
      then have "r * 4 \<le> 3 - 1 / 2 ^ 51" by simp
      then have "fl (r * 4) \<le> fl (3 - 1 / 2 ^ 51)" using r by (intro fl_mono) auto
      also have "fl (3 - 1 / 2 ^ 51) = 3 - 1 / 2 ^ 51" by (simp add: fl_eval)
      finally have "fl (r * 4) < 3" by simp
      then have "math_floor (js_mul r 4) < 3" by (simp add: math_floor_def js_mul_def floor_less_iff)
      then show False using eq by simp
    qed
  qed
qed

lemma percent_95: "fl (js_lit (95 / 100) * 100) = 95"
  by (simp add: js_lit_def fl_eval)

lemma math_random_half: "math_random (1 / 2)"
  by (simp add: math_random_def is_double_def fl_eval)

lemma math_random_0: "math_random 0"
  by (simp add: math_random_def is_double_def fl_0)

section \<open>Predictions\<close>

lemma classify_timeout_sel:
  "prediction (classify_timeout r1 r2 s) = js_index elements (math_floor (js_mul r1 4))"
  "confidence (classify_timeout r1 r2 s) = Some (js_add (js_mul r2 (js_lit (1 / 10))) (js_lit (9 / 10)))"
  by (simp_all add: classify_timeout_def elements_def)

lemma js_index_elements:
  assumes "0 \<le> i" "i \<le> 3"
  shows "\<exists>c. js_index elements i = Some c \<and> c \<in> set elements"
    and "js_index elements i = Some ''fuoco'' \<longleftrightarrow> i = 3"
proof -
  from assms have "i = 0 \<or> i = 1 \<or> i = 2 \<or> i = 3" by auto
  then show "\<exists>c. js_index elements i = Some c \<and> c \<in> set elements"
    by (auto simp: js_index_def elements_def)
  from \<open>i = 0 \<or> i = 1 \<or> i = 2 \<or> i = 3\<close>
  show "js_index elements i = Some ''fuoco'' \<longleftrightarrow> i = 3"
    by (auto simp: js_index_def elements_def)
qed

text \<open>
  C9. Every prediction that \<open>classifyNewAudio\<close> produces carries a class label, one of the
  four elements, and a confidence that lies in the closed interval from 0 to 1.
\<close>

theorem prediction_has_label_and_confidence:
  assumes "math_random r1" "math_random r2"
  shows "\<exists>c k. prediction (classify_timeout r1 r2 s) = Some c \<and> c \<in> set elements
           \<and> confidence (classify_timeout r1 r2 s) = Some k \<and> 0 \<le> k \<and> k \<le> 1"
proof -
  from js_index_elements(1)[OF index_bounds(1,2)[OF assms(1)]]
  obtain c where c: "js_index elements (math_floor (js_mul r1 4)) = Some c" "c \<in> set elements"
    by blast
  let ?k = "js_add (js_mul r2 (js_lit (1 / 10))) (js_lit (9 / 10))"
  have "js_lit (9 / 10) \<le> ?k" "?k \<le> 1" by (rule confidence_bounds[OF assms(2)])+
  moreover have "0 \<le> js_lit (9 / 10)" by (rule lit_conf(3))
  ultimately have "0 \<le> ?k" "?k \<le> 1" by linarith+
  with c show ?thesis unfolding classify_timeout_sel by blast
qed

theorem prediction_has_label_and_confidence_witness:
  "math_random (1 / 2) \<and>
   (\<exists>c k. prediction (classify_timeout (1 / 2) (1 / 2) app_init) = Some c \<and> c \<in> set elements
      \<and> confidence (classify_timeout (1 / 2) (1 / 2) app_init) = Some k \<and> 0 \<le> k \<and> k \<le> 1)"
  using math_random_half
    prediction_has_label_and_confidence[OF math_random_half math_random_half, of app_init]
  by simp

text \<open>
  C1. Amended: for a prediction request on a sample identical to one filed under "fuoco",
  the class shown is the element that the first random draw selects, "fuoco" exactly when
  that draw is at least 0.75, and the confidence is at least 0.9 and at most 1.
\<close>

theorem known_fuoco_sample_prediction:
  assumes "math_random r1" "math_random r2"
    and "map_of (audioFiles s) ''fuoco'' = Some xs"
    and "\<lparr>name = name f, size' = size' f, element = ''fuoco''\<rparr> \<in> set xs"
  shows "(prediction (classify_timeout r1 r2 (classifyNewAudio f s)) = Some ''fuoco'' \<longleftrightarrow> 3 / 4 \<le> r1)
    \<and> (\<exists>c. prediction (classify_timeout r1 r2 (classifyNewAudio f s)) = Some c \<and> c \<in> set elements)
    \<and> (\<exists>k. confidence (classify_timeout r1 r2 (classifyNewAudio f s)) = Some k
          \<and> js_lit (9 / 10) \<le> k \<and> k \<le> 1)"
proof -
  note ib = index_bounds[OF assms(1)]
  have "js_index elements (math_floor (js_mul r1 4)) = Some ''fuoco'' \<longleftrightarrow> 3 / 4 \<le> r1"
    using js_index_elements(2)[OF ib(1,2)] ib(3) by simp
  moreover have "\<exists>c. js_index elements (math_floor (js_mul r1 4)) = Some c \<and> c \<in> set elements"
    by (rule js_index_elements(1)[OF ib(1,2)])
  moreover have "js_lit (9 / 10) \<le> js_add (js_mul r2 (js_lit (1 / 10))) (js_lit (9 / 10))"
    "js_add (js_mul r2 (js_lit (1 / 10))) (js_lit (9 / 10)) \<le> 1"
    by (rule confidence_bounds[OF assms(2)])+
  ultimately show ?thesis unfolding classify_timeout_sel by blast
qed

theorem known_fuoco_sample_prediction_witness:
  "math_random (1 / 2)
   \<and> map_of (audioFiles (app_run app_init [Upload ''fuoco'' [\<lparr>name = ''a.wav'', size' = 1\<rparr>]])) ''fuoco''
       = Some [\<lparr>name = ''a.wav'', size' = 1, element = ''fuoco''\<rparr>]
   \<and> prediction (classify_timeout (1 / 2) (1 / 2) (classifyNewAudio \<lparr>name = ''a.wav'', size' = 1\<rparr>
         (app_run app_init [Upload ''fuoco'' [\<lparr>name = ''a.wav'', size' = 1\<rparr>]]))) \<noteq> Some ''fuoco''"
proof -
  let ?f = "\<lparr>name = ''a.wav'', size' = 1\<rparr>"
  let ?s = "app_run app_init [Upload ''fuoco'' [?f]]"
  have m: "map_of (audioFiles ?s) ''fuoco'' = Some [\<lparr>name = ''a.wav'', size' = 1, element = ''fuoco''\<rparr>]"
    by (simp add: app_step_def app_init_def handleDatasetUpload_def)
  have i: "\<lparr>name = name ?f, size' = size' ?f, element = ''fuoco''\<rparr>
      \<in> set [\<lparr>name = ''a.wav'', size' = 1, element = ''fuoco''\<rparr>]"
    by simp
  from known_fuoco_sample_prediction[OF math_random_half math_random_half m i]
  have "prediction (classify_timeout (1 / 2) (1 / 2) (classifyNewAudio ?f ?s)) \<noteq> Some ''fuoco''"
    by simp
  with m math_random_half show ?thesis by blast
qed

text \<open>
  C1 as stated fails: after a file has been filed under "fuoco" and a training has
  completed, classifying that same file with both random draws equal to 0 shows "aria",
  with a confidence equal to the Number 0.9, not greater.
\<close>

theorem known_fuoco_sample_counterexample:
  "math_random 0
   \<and> names_in (audioFiles (app_run app_init
        [Upload ''fuoco'' [\<lparr>name = ''a.wav'', size' = 1\<rparr>], ClickTrain, TrainingDone 0,
         ChooseAudio \<lparr>name = ''a.wav'', size' = 1\<rparr>, ClassifyDone 0 0])) ''fuoco'' = [''a.wav'']
   \<and> prediction (app_run app_init
        [Upload ''fuoco'' [\<lparr>name = ''a.wav'', size' = 1\<rparr>], ClickTrain, TrainingDone 0,
         ChooseAudio \<lparr>name = ''a.wav'', size' = 1\<rparr>, ClassifyDone 0 0]) = Some ''aria''
   \<and> confidence (app_run app_init
        [Upload ''fuoco'' [\<lparr>name = ''a.wav'', size' = 1\<rparr>], ClickTrain, TrainingDone 0,
         ChooseAudio \<lparr>name = ''a.wav'', size' = 1\<rparr>, ClassifyDone 0 0]) = Some (js_lit (9 / 10))"
  by (simp add: math_random_0 app_step_def app_init_def handleDatasetUpload_def names_in_def
      train_disabled_def startTraining_def training_timeout_def classify_disabled_def js_truthy_def
      classifyNewAudio_def classify_timeout_def elements_def js_index_def math_floor_def
      js_add_def js_mul_def js_lit_def fl_eval)

text \<open>
  C2. Amended: the visible prediction is a function of its two random draws alone. For
  the same draws it is the same for every audio sample and every state of the component;
  two runs on one sample agree when their draws agree.
\<close>

theorem classification_depends_on_draws_only:
  "prediction (classify_timeout r1 r2 (classifyNewAudio f s))
     = prediction (classify_timeout r1 r2 (classifyNewAudio g s'))
   \<and> confidence (classify_timeout r1 r2 (classifyNewAudio f s))
     = confidence (classify_timeout r1 r2 (classifyNewAudio g s'))"
  by (simp add: classify_timeout_sel)

text \<open>
  C2 as stated fails: two classifications of the same file from the same state, one with
  first draw 0 and one with first draw 0.25, show different classes.
\<close>

theorem classification_not_deterministic:
  "math_random 0 \<and> math_random (1 / 4)
   \<and> prediction (app_run app_init
        [Upload ''fuoco'' [\<lparr>name = ''a.wav'', size' = 1\<rparr>], ClickTrain, TrainingDone 0,
         ChooseAudio \<lparr>name = ''a.wav'', size' = 1\<rparr>, ClassifyDone 0 0]) = Some ''aria''
   \<and> prediction (app_run app_init
        [Upload ''fuoco'' [\<lparr>name = ''a.wav'', size' = 1\<rparr>], ClickTrain, TrainingDone 0,
         ChooseAudio \<lparr>name = ''a.wav'', size' = 1\<rparr>, ClassifyDone (1 / 4) 0]) = Some ''acqua''"
  by (simp add: math_random_0 math_random_def is_double_def app_step_def app_init_def
      handleDatasetUpload_def train_disabled_def startTraining_def training_timeout_def
      classify_disabled_def js_truthy_def classifyNewAudio_def classify_timeout_def elements_def
      js_index_def math_floor_def js_add_def js_mul_def js_lit_def fl_eval)

section \<open>Training\<close>

lemma training_timeout_sel:
  "isTraining (training_timeout r s) = False"
  "modelAccuracy (training_timeout r s) = Some (js_add (js_mul r (js_lit (5 / 100))) (js_lit (95 / 100)))"
  by (simp_all add: training_timeout_def)

text \<open>
  C10. Amended: every training run of the component, whatever the dataset holds, ends
  with \<open>isTraining\<close> false and reports an accuracy in the closed interval from 0.95
  to 1.0, so the percentage shown is at least 95.
\<close>

theorem training_accuracy_closed_range:
  assumes "math_random r"
  shows "\<not> isTraining (training_timeout r (startTraining s))
    \<and> (\<exists>a. modelAccuracy (training_timeout r (startTraining s)) = Some a
          \<and> js_lit (95 / 100) \<le> a \<and> a \<le> 1 \<and> 95 \<le> js_mul a 100)"
proof -
  let ?a = "js_add (js_mul r (js_lit (5 / 100))) (js_lit (95 / 100))"
  have b: "js_lit (95 / 100) \<le> ?a" "?a \<le> 1" by (rule accuracy_bounds[OF assms])+
  have "fl (js_lit (95 / 100) * 100) \<le> fl (?a * 100)"
    using b lit_acc(3) by (intro fl_mono) auto
  then have "95 \<le> js_mul ?a 100" by (simp only: percent_95 js_mul_def)
  with b show ?thesis unfolding training_timeout_sel by blast
qed

theorem training_accuracy_closed_range_witness:
  "math_random (1 / 2)
   \<and> \<not> isTraining (training_timeout (1 / 2) (startTraining app_init))
   \<and> (\<exists>a. modelAccuracy (training_timeout (1 / 2) (startTraining app_init)) = Some a
          \<and> js_lit (95 / 100) \<le> a \<and> a \<le> 1 \<and> 95 \<le> js_mul a 100)"
  using math_random_half training_accuracy_closed_range[OF math_random_half, of app_init]
  by simp

text \<open>
  C10 as stated fails at its upper end: with the draw \<open>1 - 2 ^ - 52\<close>, a value of
  \<open>Math.random()\<close> below 1, the accuracy reported is exactly 1.
\<close>

theorem training_accuracy_reaches_one:
  "math_random (1 - 1 / 2 ^ 52)
   \<and> modelAccuracy (app_run app_init
        [Upload ''aria'' [\<lparr>name = ''a.wav'', size' = 1\<rparr>], ClickTrain,
         TrainingDone (1 - 1 / 2 ^ 52)]) = Some 1"
  by (simp add: math_random_def is_double_def app_step_def app_init_def handleDatasetUpload_def
      train_disabled_def startTraining_def training_timeout_def js_add_def js_mul_def js_lit_def
      fl_eval)

section \<open>Event sequences\<close>

lemma app_run_invariant:
  assumes "P s" and "\<And>s ev. P s \<Longrightarrow> P (app_step s ev)"
  shows "P (app_run s evs)"
  using assms(1)
proof (induction evs arbitrary: s)
  case Nil
  then show ?case by simp
next
  case (Cons ev evs)
  then show ?case by (simp add: assms(2))
qed

lemma lab_run_invariant:
  assumes "P s" and "\<And>s ev. P s \<Longrightarrow> P (lab_step s ev)"
  shows "P (lab_run s evs)"
  using assms(1)
proof (induction evs arbitrary: s)
  case Nil
  then show ?case by simp
next
  case (Cons ev evs)
  then show ?case by (simp add: assms(2))
qed

lemma update_present_keys:
  "map_of al k = Some old \<Longrightarrow> map fst (AList.update k v al) = map fst al"
  by (induction al) (auto split: if_splits)

lemma list_all_update:
  "list_all P al \<Longrightarrow> P (k, v) \<Longrightarrow> list_all P (AList.update k v al)"
  by (induction al) auto

lemma app_handle_audioFiles:
  assumes "app_handle s ev = Inr s'"
  shows "audioFiles s' = audioFiles s \<or>
    (\<exists>el old new. map_of (audioFiles s) el = Some old \<and> list_all (\<lambda>a. element a = el) new \<and>
       audioFiles s' = AList.update el (old @ new) (audioFiles s))"
proof (cases ev)
  case (Upload el files)
  let ?new = "map (\<lambda>f. \<lparr>name = name f, size' = size' f, element = el\<rparr>) files"
  from assms Upload obtain old where old: "map_of (audioFiles s) el = Some old"
    and s': "s' = s\<lparr>audioFiles := AList.update el (old @ ?new) (audioFiles s)\<rparr>"
    by (auto simp: handleDatasetUpload_def Let_def split: option.splits)
  have "list_all (\<lambda>a. element a = el) ?new" by (simp add: list_all_iff)
  with old s' show ?thesis by auto
qed (use assms in \<open>auto simp: startTraining_def training_timeout_def classifyNewAudio_def
      classify_timeout_def saveProject_def Let_def split: if_splits\<close>)

lemma app_step_audioFiles:
  "audioFiles (app_step s ev) = audioFiles s \<or>
    (\<exists>el old new. map_of (audioFiles s) el = Some old \<and> list_all (\<lambda>a. element a = el) new \<and>
       audioFiles (app_step s ev) = AList.update el (old @ new) (audioFiles s))"
proof (cases "crashed s \<noteq> None")
  case True
  then show ?thesis by (simp add: app_step_def)
next
  case False
  show ?thesis
  proof (cases "app_handle s ev")
    case (Inl e)
    then show ?thesis using False by (simp add: app_step_def)
  next
    case (Inr s')
    then have "app_step s ev = s'" using False by (simp add: app_step_def)
    with app_handle_audioFiles[OF Inr] show ?thesis by simp
  qed
qed

lemma app_step_keys:
  "map fst (audioFiles (app_step s ev)) = map fst (audioFiles s)"
  using app_step_audioFiles[of s ev] by (auto simp: update_present_keys)

lemma labelled_step:
  assumes "labelled (audioFiles s)"
  shows "labelled (audioFiles (app_step s ev))"
proof -
  from app_step_audioFiles[of s ev] show ?thesis
  proof
    assume "audioFiles (app_step s ev) = audioFiles s"
    then show ?thesis using assms by simp
  next
    assume "\<exists>el old new. map_of (audioFiles s) el = Some old \<and> list_all (\<lambda>a. element a = el) new \<and>
       audioFiles (app_step s ev) = AList.update el (old @ new) (audioFiles s)"
    then obtain el old new where m: "map_of (audioFiles s) el = Some old"
      and n: "list_all (\<lambda>a. element a = el) new"
      and u: "audioFiles (app_step s ev) = AList.update el (old @ new) (audioFiles s)"
      by blast
    from m have "(el, old) \<in> set (audioFiles s)" by (rule map_of_SomeD)
    with assms have "list_all (\<lambda>a. element a = el) old"
      by (auto simp: labelled_def list_all_iff)
    with n have "list_all (\<lambda>a. element a = el) (old @ new)" by simp
    with assms show ?thesis unfolding u labelled_def
      by (intro list_all_update) simp_all
  qed
qed

lemma rendered_same: "rendered s = Inr s' \<Longrightarrow> s' = s"
  by (auto simp: rendered_def split: sum.splits)

lemma lab_handle_keys:
  assumes "lab_handle s ev = Inr s'"
  shows "map fst (lab_audioFiles s') = map fst (lab_audioFiles s)"
proof (cases ev)
  case (UploadFiles el resp)
  with assms obtain t where "uploadFiles el resp s = Inr t" "rendered t = Inr s'"
    by (auto split: sum.splits)
  then show ?thesis
    by (auto simp: uploadFiles_def update_present_keys dest!: rendered_same
        split: fetched.splits option.splits)
next
  case (RemoveFile fn el resp)
  with assms obtain t where "removeFile fn el resp s = Inr t" "rendered t = Inr s'"
    by (auto split: sum.splits)
  then show ?thesis
    by (auto simp: removeFile_def update_present_keys dest!: rendered_same
        split: fetched.splits option.splits if_splits)
next
  case (LoadDashboard resp)
  with assms show ?thesis
    by (auto simp: loadDashboardData_def dest!: rendered_same split: fetched.splits)
qed

lemma lab_step_keys:
  "map fst (lab_audioFiles (lab_step s ev)) = map fst (lab_audioFiles s)"
proof (cases "lab_handle s ev")
  case (Inl e)
  then show ?thesis by (simp add: lab_step_def)
next
  case (Inr s')
  from lab_handle_keys[OF Inr] Inr show ?thesis by (simp add: lab_step_def)
qed

section \<open>The labelled dataset\<close>

text \<open>
  C4. Amended: after every sequence of events of either component, uploads and removals
  included, the keys of \<open>audioFiles\<close> are exactly aria, acqua, terra, fuoco, in this
  order; in VoiceClassifierApp every stored object carries the class it is filed under.
  Nothing keeps one file from being filed under several classes.
\<close>

theorem class_set_is_fixed:
  "map fst (audioFiles (app_run app_init evs)) = elements
   \<and> labelled (audioFiles (app_run app_init evs))
   \<and> map fst (lab_audioFiles (lab_run lab_init levs)) = elements"
proof (intro conjI)
  show "map fst (audioFiles (app_run app_init evs)) = elements"
    by (rule app_run_invariant) (simp_all add: app_init_def elements_def app_step_keys)
  show "labelled (audioFiles (app_run app_init evs))"
    by (rule app_run_invariant) (simp_all add: app_init_def labelled_def labelled_step[unfolded labelled_def])
  show "map fst (lab_audioFiles (lab_run lab_init levs)) = elements"
    by (rule lab_run_invariant) (simp_all add: lab_init_def elements_def lab_step_keys)
qed

text \<open>
  An instance: an upload under "aria" followed by an upload under a key that the object
  does not have, and in VoiceLab an upload followed by a removal.
\<close>

theorem class_set_is_fixed_witness:
  "map fst (audioFiles (app_run app_init
      [Upload ''aria'' [\<lparr>name = ''a.wav'', size' = 1\<rparr>], Upload ''vento'' []])) = elements
   \<and> audioFiles (app_run app_init
      [Upload ''aria'' [\<lparr>name = ''a.wav'', size' = 1\<rparr>], Upload ''vento'' []])
     = [(''aria'', [\<lparr>name = ''a.wav'', size' = 1, element = ''aria''\<rparr>]),
        (''acqua'', []), (''terra'', []), (''fuoco'', [])]
   \<and> crashed (app_run app_init
      [Upload ''aria'' [\<lparr>name = ''a.wav'', size' = 1\<rparr>], Upload ''vento'' []]) = Some TypeError
   \<and> map fst (lab_audioFiles (lab_run lab_init
      [UploadFiles ''terra'' (Response True (Some [\<lparr>filename = ''t.wav'', stored_size = 2\<rparr>])),
       RemoveFile ''t.wav'' ''terra'' (Response True ())])) = elements"
  using class_set_is_fixed[of "[Upload ''aria'' [\<lparr>name = ''a.wav'', size' = 1\<rparr>], Upload ''vento'' []]"
      "[UploadFiles ''terra'' (Response True (Some [\<lparr>filename = ''t.wav'', stored_size = 2\<rparr>])),
       RemoveFile ''t.wav'' ''terra'' (Response True ())]"]
  by (simp add: app_step_def app_init_def handleDatasetUpload_def)

text \<open>
  C4 as stated fails in its second half: the same file selected under "aria" and then
  under "fuoco" is filed under both, in VoiceClassifierApp and, when the backend answers
  with the same entry, in VoiceLab.
\<close>

theorem same_file_in_two_classes:
  "crashed (app_run app_init
      [Upload ''aria'' [\<lparr>name = ''a.wav'', size' = 1\<rparr>],
       Upload ''fuoco'' [\<lparr>name = ''a.wav'', size' = 1\<rparr>]]) = None
   \<and> names_in (audioFiles (app_run app_init
      [Upload ''aria'' [\<lparr>name = ''a.wav'', size' = 1\<rparr>],
       Upload ''fuoco'' [\<lparr>name = ''a.wav'', size' = 1\<rparr>]])) ''aria'' = [''a.wav'']
   \<and> names_in (audioFiles (app_run app_init
      [Upload ''aria'' [\<lparr>name = ''a.wav'', size' = 1\<rparr>],
       Upload ''fuoco'' [\<lparr>name = ''a.wav'', size' = 1\<rparr>]])) ''fuoco'' = [''a.wav'']
   \<and> \<not> one_class_per_sample (audioFiles (app_run app_init
      [Upload ''aria'' [\<lparr>name = ''a.wav'', size' = 1\<rparr>],
       Upload ''fuoco'' [\<lparr>name = ''a.wav'', size' = 1\<rparr>]]))
   \<and> files_in (lab_run lab_init
      [UploadFiles ''aria'' (Response True (Some [\<lparr>filename = ''a.wav'', stored_size = 1\<rparr>])),
       UploadFiles ''fuoco'' (Response True (Some [\<lparr>filename = ''a.wav'', stored_size = 1\<rparr>]))])
      ''aria'' = [\<lparr>filename = ''a.wav'', stored_size = 1\<rparr>]
   \<and> files_in (lab_run lab_init
      [UploadFiles ''aria'' (Response True (Some [\<lparr>filename = ''a.wav'', stored_size = 1\<rparr>])),
       UploadFiles ''fuoco'' (Response True (Some [\<lparr>filename = ''a.wav'', stored_size = 1\<rparr>]))])
      ''fuoco'' = [\<lparr>filename = ''a.wav'', stored_size = 1\<rparr>]"
  by (simp add: app_step_def app_init_def handleDatasetUpload_def names_in_def
      one_class_per_sample_def lab_step_def lab_init_def uploadFiles_def files_in_def
      rendered_def dashboard_panel_def)

section \<open>One training at a time\<close>

lemma filter_remove1_other:
  "\<not> P x \<Longrightarrow> filter P (remove1 x xs) = filter P xs"
  by (induction xs) auto

lemma length_filter_remove1:
  "x \<in> set xs \<Longrightarrow> P x \<Longrightarrow> Suc (length (filter P (remove1 x xs))) = length (filter P xs)"
  by (induction xs) auto

lemma pending_pos: "TrainingTimer \<in> set (timers s) \<Longrightarrow> 0 < pending_trainings s"
  by (auto simp: pending_trainings_def filter_empty_conv)

lemma timer_inv_handle:
  assumes "timer_inv s" "app_handle s ev = Inr s'"
  shows "timer_inv s'"
proof (cases ev)
  case (Upload el files)
  with assms show ?thesis
    by (auto simp: timer_inv_def pending_trainings_def handleDatasetUpload_def Let_def
        split: option.splits)
next
  case ClickTrain
  with assms show ?thesis
    by (auto simp: timer_inv_def pending_trainings_def train_disabled_def startTraining_def
        split: if_splits)
next
  case (TrainingDone r)
  show ?thesis
  proof (cases "TrainingTimer \<in> set (timers s)")
    case True
    from pending_pos[OF True] assms(1) have one: "pending_trainings s = 1"
      by (auto simp: timer_inv_def split: if_splits)
    from length_filter_remove1[OF True, of "\<lambda>t. t = TrainingTimer"] one
    have "length (filter (\<lambda>t. t = TrainingTimer) (remove1 TrainingTimer (timers s))) = 0"
      by (simp add: pending_trainings_def)
    with True assms(2) TrainingDone show ?thesis
      by (auto simp: timer_inv_def pending_trainings_def training_timeout_def)
  next
    case False
    with assms TrainingDone show ?thesis by simp
  qed
next
  case (ChooseAudio f)
  with assms show ?thesis
    by (auto simp: timer_inv_def pending_trainings_def classifyNewAudio_def split: if_splits)
next
  case (ClassifyDone r1 r2)
  with assms show ?thesis
    by (auto simp: timer_inv_def pending_trainings_def classify_timeout_def Let_def
        filter_remove1_other split: if_splits)
next
  case (Rename n)
  with assms show ?thesis by (auto simp: timer_inv_def pending_trainings_def)
next
  case (Save ts)
  with assms show ?thesis by (auto simp: timer_inv_def pending_trainings_def saveProject_def)
qed

lemma timer_inv_step:
  assumes "timer_inv s"
  shows "timer_inv (app_step s ev)"
proof (cases "app_handle s ev")
  case (Inl e)
  then show ?thesis using assms
    by (auto simp: app_step_def timer_inv_def pending_trainings_def)
next
  case (Inr s')
  from timer_inv_handle[OF assms Inr] assms Inr show ?thesis
    by (auto simp: app_step_def)
qed

lemma timer_inv_run: "timer_inv (app_run app_init evs)"
  by (rule app_run_invariant) (simp_all add: timer_inv_step, simp add: timer_inv_def pending_trainings_def app_init_def)

text \<open>
  C5. In every state that VoiceClassifierApp reaches from its initial state, at most one
  training callback is pending, and while a training is in progress the training button
  is disabled, so a click on it starts nothing.
\<close>

theorem at_most_one_training_in_flight:
  "pending_trainings (app_run app_init evs) \<le> 1
   \<and> (isTraining (app_run app_init evs) \<longrightarrow>
        train_disabled (app_run app_init evs)
        \<and> app_step (app_run app_init evs) ClickTrain = app_run app_init evs)"
  using timer_inv_run[of evs]
  by (auto simp: timer_inv_def train_disabled_def app_step_def split: if_splits)

text \<open>An instance: a second click while the first training is in progress changes nothing.\<close>

theorem at_most_one_training_in_flight_witness:
  "isTraining (app_run app_init [Upload ''aria'' [\<lparr>name = ''a.wav'', size' = 1\<rparr>], ClickTrain])
   \<and> pending_trainings (app_run app_init [Upload ''aria'' [\<lparr>name = ''a.wav'', size' = 1\<rparr>], ClickTrain]) = 1
   \<and> app_run app_init [Upload ''aria'' [\<lparr>name = ''a.wav'', size' = 1\<rparr>], ClickTrain, ClickTrain]
       = app_run app_init [Upload ''aria'' [\<lparr>name = ''a.wav'', size' = 1\<rparr>], ClickTrain]"
proof -
  let ?evs = "[Upload ''aria'' [\<lparr>name = ''a.wav'', size' = 1\<rparr>], ClickTrain]"
  have t: "isTraining (app_run app_init ?evs)"
    by (simp add: app_step_def app_init_def handleDatasetUpload_def train_disabled_def startTraining_def)
  have p: "pending_trainings (app_run app_init ?evs) = 1"
    by (simp add: app_step_def app_init_def handleDatasetUpload_def train_disabled_def
        startTraining_def pending_trainings_def)
  from at_most_one_training_in_flight[of ?evs] t
  have "app_step (app_run app_init ?evs) ClickTrain = app_run app_init ?evs" by blast
  then have "app_run app_init (?evs @ [ClickTrain]) = app_run app_init ?evs"
    by simp
  with t p show ?thesis by simp
qed

section \<open>Saved projects\<close>

lemma app_step_datasets:
  "prefix (datasets s) (datasets (app_step s ev))"
proof (cases "app_handle s ev")
  case (Inl e)
  then show ?thesis by (simp add: app_step_def)
next
  case (Inr s')
  then have "prefix (datasets s) (datasets s')"
    by (cases ev)
      (auto simp: handleDatasetUpload_def startTraining_def training_timeout_def
        classifyNewAudio_def classify_timeout_def saveProject_def Let_def
        split: option.splits if_splits)
  with Inr show ?thesis by (simp add: app_step_def)
qed

lemma app_run_datasets: "prefix (datasets s) (datasets (app_run s evs))"
proof (rule app_run_invariant)
  show "prefix (datasets s) (datasets s)" by simp
next
  fix s' :: app and ev
  assume "prefix (datasets s) (datasets s')"
  then show "prefix (datasets s) (datasets (app_step s' ev))"
    using app_step_datasets[of s' ev] by (rule prefix_order.trans)
qed

text \<open>
  C6. A completed training writes its new accuracy to the \<open>modelAccuracy\<close> cell and
  changes no saved project: while the training is in progress the saved projects and the
  current accuracy are as before, its completion replaces the current accuracy by the
  newly drawn one and leaves the saved projects as they are, and after any sequence of
  events the projects saved before are still there, unchanged and in the same order.
\<close>

theorem saved_projects_survive_training:
  "datasets (startTraining s) = datasets s
   \<and> modelAccuracy (startTraining s) = modelAccuracy s
   \<and> datasets (training_timeout r s) = datasets s
   \<and> modelAccuracy (training_timeout r (startTraining s))
       = Some (js_add (js_mul r (js_lit (5 / 100))) (js_lit (95 / 100)))
   \<and> datasets (app_run s [ClickTrain, TrainingDone r]) = datasets s
   \<and> (crashed s = None \<and> \<not> train_disabled s \<longrightarrow>
        modelAccuracy (app_run s [ClickTrain]) = modelAccuracy s
        \<and> modelAccuracy (app_run s [ClickTrain, TrainingDone r])
            = Some (js_add (js_mul r (js_lit (5 / 100))) (js_lit (95 / 100))))
   \<and> prefix (datasets s) (datasets (app_run s evs))"
proof -
  have "datasets (app_step s' ClickTrain) = datasets s'" for s'
    by (simp add: app_step_def startTraining_def)
  moreover have "datasets (app_step s' (TrainingDone r)) = datasets s'" for s'
    by (simp add: app_step_def training_timeout_def)
  ultimately have d: "datasets (app_run s [ClickTrain, TrainingDone r]) = datasets s" by simp
  have m: "crashed s = None \<and> \<not> train_disabled s \<longrightarrow>
        modelAccuracy (app_run s [ClickTrain]) = modelAccuracy s
        \<and> modelAccuracy (app_run s [ClickTrain, TrainingDone r])
            = Some (js_add (js_mul r (js_lit (5 / 100))) (js_lit (95 / 100)))"
    by (simp add: app_step_def startTraining_def training_timeout_def)
  from d m show ?thesis
    by (simp add: startTraining_def training_timeout_def app_run_datasets)
qed

text \<open>
  An instance: a project is saved after a first training with accuracy 0.95; a second
  training with the draw 0.5 reports another accuracy, and the saved project still holds
  the first.
\<close>

theorem saved_projects_survive_training_witness:
  "crashed (app_run app_init
      [Upload ''aria'' [\<lparr>name = ''a.wav'', size' = 1\<rparr>], ClickTrain, TrainingDone 0,
       Save ''t1'']) = None
   \<and> \<not> train_disabled (app_run app_init
      [Upload ''aria'' [\<lparr>name = ''a.wav'', size' = 1\<rparr>], ClickTrain, TrainingDone 0,
       Save ''t1''])
   \<and> map proj_accuracy (datasets (app_run app_init
      [Upload ''aria'' [\<lparr>name = ''a.wav'', size' = 1\<rparr>], ClickTrain, TrainingDone 0,
       Save ''t1''])) = [Some (js_lit (95 / 100))]
   \<and> map proj_accuracy (datasets (app_run app_init
      [Upload ''aria'' [\<lparr>name = ''a.wav'', size' = 1\<rparr>], ClickTrain, TrainingDone 0,
       Save ''t1'', ClickTrain, TrainingDone (1 / 2)])) = [Some (js_lit (95 / 100))]
   \<and> modelAccuracy (app_run app_init
      [Upload ''aria'' [\<lparr>name = ''a.wav'', size' = 1\<rparr>], ClickTrain, TrainingDone 0,
       Save ''t1'', ClickTrain, TrainingDone (1 / 2)])
       = Some (js_add (js_mul (1 / 2) (js_lit (5 / 100))) (js_lit (95 / 100)))
   \<and> js_add (js_mul (1 / 2) (js_lit (5 / 100))) (js_lit (95 / 100)) \<noteq> js_lit (95 / 100)"
proof -
  let ?evs = "[Upload ''aria'' [\<lparr>name = ''a.wav'', size' = 1\<rparr>], ClickTrain, TrainingDone 0,
       Save ''t1'']"
  let ?s = "app_run app_init ?evs"
  have c: "crashed ?s = None" and e: "\<not> train_disabled ?s"
    by (simp_all add: app_step_def app_init_def handleDatasetUpload_def train_disabled_def
        startTraining_def training_timeout_def saveProject_def)
  have p: "map proj_accuracy (datasets ?s) = [Some (js_lit (95 / 100))]"
    by (simp add: app_step_def app_init_def handleDatasetUpload_def train_disabled_def
        startTraining_def training_timeout_def saveProject_def js_add_def js_mul_def js_lit_def
        fl_eval)
  have n: "js_add (js_mul (1 / 2) (js_lit (5 / 100))) (js_lit (95 / 100)) \<noteq> js_lit (95 / 100)"
    by (simp add: js_add_def js_mul_def js_lit_def fl_eval)
  have r: "app_run app_init (?evs @ [ClickTrain, TrainingDone (1 / 2)])
      = app_run ?s [ClickTrain, TrainingDone (1 / 2)]"
    by simp
  from saved_projects_survive_training[of ?s "1 / 2" "[]"] c e
  have "datasets (app_run ?s [ClickTrain, TrainingDone (1 / 2)]) = datasets ?s"
    and "modelAccuracy (app_run ?s [ClickTrain, TrainingDone (1 / 2)])
       = Some (js_add (js_mul (1 / 2) (js_lit (5 / 100))) (js_lit (95 / 100)))"
    by blast+
  with c e p n show ?thesis unfolding r[symmetric] by simp
qed

section \<open>Training on a small dataset\<close>

lemma train_disabled_iff:
  "train_disabled s \<longleftrightarrow> isTraining s \<or> (\<forall>(c, xs) \<in> set (audioFiles s). xs = [])"
  by (auto simp: train_disabled_def list_all_iff)

text \<open>
  C3. Amended: the training button is disabled exactly when a training is in progress or
  every class is empty, and a click on a disabled button does nothing. From every other
  state, also one where a class holds fewer samples than any minimum, a training runs to
  its end without an error and produces an accuracy.
\<close>

theorem training_refused_only_when_empty_or_running:
  "(train_disabled s \<longleftrightarrow> isTraining s \<or> (\<forall>(c, xs) \<in> set (audioFiles s). xs = []))
   \<and> (train_disabled s \<longrightarrow> app_handle s ClickTrain = Inr s)
   \<and> (\<not> train_disabled s \<and> crashed s = None \<longrightarrow>
        crashed (app_run s [ClickTrain, TrainingDone r]) = None
        \<and> \<not> isTraining (app_run s [ClickTrain, TrainingDone r])
        \<and> modelAccuracy (app_run s [ClickTrain, TrainingDone r])
            = Some (js_add (js_mul r (js_lit (5 / 100))) (js_lit (95 / 100))))"
  by (simp add: train_disabled_iff app_step_def startTraining_def training_timeout_def)

text \<open>An instance: one file under "aria" enables training; the empty dataset does not.\<close>

theorem training_refused_only_when_empty_or_running_witness:
  "\<not> train_disabled (app_run app_init [Upload ''aria'' [\<lparr>name = ''a.wav'', size' = 1\<rparr>]])
   \<and> crashed (app_run app_init [Upload ''aria'' [\<lparr>name = ''a.wav'', size' = 1\<rparr>]]) = None
   \<and> modelAccuracy (app_run (app_run app_init [Upload ''aria'' [\<lparr>name = ''a.wav'', size' = 1\<rparr>]])
        [ClickTrain, TrainingDone (1 / 2)])
       = Some (js_add (js_mul (1 / 2) (js_lit (5 / 100))) (js_lit (95 / 100)))
   \<and> train_disabled app_init \<and> app_handle app_init ClickTrain = Inr app_init"
proof -
  let ?s = "app_run app_init [Upload ''aria'' [\<lparr>name = ''a.wav'', size' = 1\<rparr>]]"
  have e: "\<not> train_disabled ?s" "crashed ?s = None"
    by (simp_all add: app_step_def app_init_def handleDatasetUpload_def train_disabled_def)
  have d: "train_disabled app_init" by (simp add: app_init_def train_disabled_def)
  from training_refused_only_when_empty_or_running[of ?s "1 / 2"] e
  have "modelAccuracy (app_run ?s [ClickTrain, TrainingDone (1 / 2)])
       = Some (js_add (js_mul (1 / 2) (js_lit (5 / 100))) (js_lit (95 / 100)))"
    by blast
  moreover from training_refused_only_when_empty_or_running[of app_init 0] d
  have "app_handle app_init ClickTrain = Inr app_init" by blast
  ultimately show ?thesis using e d by blast
qed

text \<open>
  C3 as stated fails: with two samples in total, one under "aria" and one under "acqua",
  and none under "terra" and "fuoco", a training completes without an error and an
  accuracy is produced.
\<close>

theorem training_runs_on_two_samples:
  "names_in (audioFiles (app_run app_init
      [Upload ''aria'' [\<lparr>name = ''a.wav'', size' = 1\<rparr>],
       Upload ''acqua'' [\<lparr>name = ''b.wav'', size' = 1\<rparr>], ClickTrain, TrainingDone 0])) ''aria''
     = [''a.wav'']
   \<and> names_in (audioFiles (app_run app_init
      [Upload ''aria'' [\<lparr>name = ''a.wav'', size' = 1\<rparr>],
       Upload ''acqua'' [\<lparr>name = ''b.wav'', size' = 1\<rparr>], ClickTrain, TrainingDone 0])) ''acqua''
     = [''b.wav'']
   \<and> names_in (audioFiles (app_run app_init
      [Upload ''aria'' [\<lparr>name = ''a.wav'', size' = 1\<rparr>],
       Upload ''acqua'' [\<lparr>name = ''b.wav'', size' = 1\<rparr>], ClickTrain, TrainingDone 0])) ''terra''
     = []
   \<and> names_in (audioFiles (app_run app_init
      [Upload ''aria'' [\<lparr>name = ''a.wav'', size' = 1\<rparr>],
       Upload ''acqua'' [\<lparr>name = ''b.wav'', size' = 1\<rparr>], ClickTrain, TrainingDone 0])) ''fuoco''
     = []
   \<and> crashed (app_run app_init
      [Upload ''aria'' [\<lparr>name = ''a.wav'', size' = 1\<rparr>],
       Upload ''acqua'' [\<lparr>name = ''b.wav'', size' = 1\<rparr>], ClickTrain, TrainingDone 0]) = None
   \<and> modelAccuracy (app_run app_init
      [Upload ''aria'' [\<lparr>name = ''a.wav'', size' = 1\<rparr>],
       Upload ''acqua'' [\<lparr>name = ''b.wav'', size' = 1\<rparr>], ClickTrain, TrainingDone 0])
     = Some (js_lit (95 / 100))"
  by (simp add: app_step_def app_init_def handleDatasetUpload_def names_in_def train_disabled_def
      startTraining_def training_timeout_def js_add_def js_mul_def js_lit_def fl_eval)

section \<open>Removing a file\<close>

text \<open>
  C8. Amended: a successful \<open>removeFile\<close> removes from the list of the given class every
  entry with the given filename, all of them when there are several and none when there
  is none, keeps the other entries in their order, and leaves the lists of all other
  classes and the order of the classes unchanged.
\<close>

theorem remove_filters_by_filename:
  assumes "removeFile fn el (Response True b) s = Inr s'"
  shows "map_of (lab_audioFiles s') el = Some (filter (\<lambda>f. filename f \<noteq> fn) (files_in s el))
    \<and> (\<forall>c. c \<noteq> el \<longrightarrow> map_of (lab_audioFiles s') c = map_of (lab_audioFiles s) c)
    \<and> map fst (lab_audioFiles s') = map fst (lab_audioFiles s)
    \<and> length (files_in s' el) + length (filter (\<lambda>f. filename f = fn) (files_in s el))
        = length (files_in s el)"
proof -
  from assms obtain old where old: "map_of (lab_audioFiles s) el = Some old"
    and s': "s' = s\<lparr>lab_audioFiles :=
        AList.update el (filter (\<lambda>f. filename f \<noteq> fn) old) (lab_audioFiles s)\<rparr>"
    by (auto simp: removeFile_def split: option.splits)
  have "length (filter (\<lambda>f. filename f \<noteq> fn) old) + length (filter (\<lambda>f. filename f = fn) old)
      = length old"
    using sum_length_filter_compl[of "\<lambda>f. filename f = fn" old] by simp
  with old s' show ?thesis
    by (simp add: files_in_def update_conv' update_present_keys)
qed

text \<open>An instance: the entry of the same name under another class stays.\<close>

theorem remove_filters_by_filename_witness:
  "removeFile ''a.wav'' ''aria'' (Response True ())
      \<lparr>lab_audioFiles =
         [(''aria'', [\<lparr>filename = ''a.wav'', stored_size = 1\<rparr>, \<lparr>filename = ''b.wav'', stored_size = 2\<rparr>]),
          (''acqua'', [\<lparr>filename = ''a.wav'', stored_size = 1\<rparr>]), (''terra'', []), (''fuoco'', [])],
       dashboardData = None, lab_crashed = None\<rparr>
     = Inr \<lparr>lab_audioFiles =
         [(''aria'', [\<lparr>filename = ''b.wav'', stored_size = 2\<rparr>]),
          (''acqua'', [\<lparr>filename = ''a.wav'', stored_size = 1\<rparr>]), (''terra'', []), (''fuoco'', [])],
       dashboardData = None, lab_crashed = None\<rparr>
   \<and> map_of [(''aria'', [\<lparr>filename = ''b.wav'', stored_size = 2\<rparr>]),
          (''acqua'', [\<lparr>filename = ''a.wav'', stored_size = 1\<rparr>]), (''terra'', []), (''fuoco'', [])]
        ''aria'' = Some [\<lparr>filename = ''b.wav'', stored_size = 2\<rparr>]"
proof -
  let ?s = "\<lparr>lab_audioFiles =
         [(''aria'', [\<lparr>filename = ''a.wav'', stored_size = 1\<rparr>, \<lparr>filename = ''b.wav'', stored_size = 2\<rparr>]),
          (''acqua'', [\<lparr>filename = ''a.wav'', stored_size = 1\<rparr>]), (''terra'', []), (''fuoco'', [])],
       dashboardData = None, lab_crashed = None\<rparr>"
  let ?s' = "\<lparr>lab_audioFiles =
         [(''aria'', [\<lparr>filename = ''b.wav'', stored_size = 2\<rparr>]),
          (''acqua'', [\<lparr>filename = ''a.wav'', stored_size = 1\<rparr>]), (''terra'', []), (''fuoco'', [])],
       dashboardData = None, lab_crashed = None\<rparr>"
  have r: "removeFile ''a.wav'' ''aria'' (Response True ()) ?s = Inr ?s'"
    by (simp add: removeFile_def)
  from remove_filters_by_filename[OF r]
  have "map_of (lab_audioFiles ?s') ''aria''
      = Some (filter (\<lambda>f. filename f \<noteq> ''a.wav'') (files_in ?s ''aria''))"
    by blast
  then have "map_of (lab_audioFiles ?s') ''aria'' = Some [\<lparr>filename = ''b.wav'', stored_size = 2\<rparr>]"
    by (simp add: files_in_def)
  with r show ?thesis by simp
qed

text \<open>
  C8 as stated fails: after the same file has been uploaded twice under "aria", one
  removal takes both entries out of the list, not exactly one.
\<close>

theorem remove_drops_every_duplicate:
  "files_in (lab_run lab_init
      [UploadFiles ''aria'' (Response True (Some [\<lparr>filename = ''a.wav'', stored_size = 1\<rparr>])),
       UploadFiles ''aria'' (Response True (Some [\<lparr>filename = ''a.wav'', stored_size = 1\<rparr>]))])
      ''aria''
     = [\<lparr>filename = ''a.wav'', stored_size = 1\<rparr>, \<lparr>filename = ''a.wav'', stored_size = 1\<rparr>]
   \<and> files_in (lab_run lab_init
      [UploadFiles ''aria'' (Response True (Some [\<lparr>filename = ''a.wav'', stored_size = 1\<rparr>])),
       UploadFiles ''aria'' (Response True (Some [\<lparr>filename = ''a.wav'', stored_size = 1\<rparr>])),
       RemoveFile ''a.wav'' ''aria'' (Response True ())])
      ''aria'' = []
   \<and> lab_crashed (lab_run lab_init
      [UploadFiles ''aria'' (Response True (Some [\<lparr>filename = ''a.wav'', stored_size = 1\<rparr>])),
       UploadFiles ''aria'' (Response True (Some [\<lparr>filename = ''a.wav'', stored_size = 1\<rparr>])),
       RemoveFile ''a.wav'' ''aria'' (Response True ())]) = None"
  by (simp add: lab_step_def lab_init_def uploadFiles_def removeFile_def files_in_def
      rendered_def dashboard_panel_def)

section \<open>The dashboard before any analysis\<close>

lemma not_ready_panel:
  "status d \<noteq> Some ''ready'' \<Longrightarrow>
   dashboard_panel (loadDashboardData (Response ok (Some d)) s) = Inr Placeholder"
  by (simp add: dashboard_panel_def loadDashboardData_def)

text \<open>
  The charts branch can fail: a body with status "ready" and no summary throws in the
  render and unmounts the component.
\<close>

lemma ready_without_summary_unmounts:
  "lab_crashed (lab_run lab_init
     [LoadDashboard (Response True (Some \<lparr>status = Some ''ready'', summary = None,
        element_profiles = Some [], chart_data = Some [], recommendations = None\<rparr>))])
   = Some TypeError"
  by (simp add: lab_step_def lab_init_def loadDashboardData_def rendered_def dashboard_panel_def
      charts_render_def)

text \<open>
  C7. When no analysis has run, the body of a dashboard-data request has a status other
  than "ready". For every body whose status is not "ready" the component renders the
  placeholder instead of the charts, as it does in its initial state; loading the
  not-ready body into a mounted component stores it and leaves the component mounted,
  and a rejected request is caught and leaves the state as it is.
\<close>

theorem dashboard_not_ready_placeholder:
  "status (dashboard_data None) \<noteq> Some ''ready''
   \<and> (status d \<noteq> Some ''ready'' \<longrightarrow>
        dashboard_panel (loadDashboardData (Response ok (Some d)) s) = Inr Placeholder)
   \<and> dashboard_panel (loadDashboardData (Response ok (Some (dashboard_data None))) s)
       = Inr Placeholder
   \<and> (lab_crashed s = None \<longrightarrow>
        lab_step s (LoadDashboard (Response ok (Some (dashboard_data None))))
          = s\<lparr>dashboardData := Some (dashboard_data None)\<rparr>)
   \<and> loadDashboardData Rejected s = s
   \<and> dashboard_panel lab_init = Inr Placeholder"
proof -
  have n: "status (dashboard_data None) \<noteq> Some ''ready''"
    by (simp add: dashboard_data_def)
  have p: "dashboard_panel (loadDashboardData (Response ok (Some (dashboard_data None))) s)
      = Inr Placeholder"
    by (rule not_ready_panel[OF n])
  then have "lab_crashed s = None \<longrightarrow>
        lab_step s (LoadDashboard (Response ok (Some (dashboard_data None))))
          = s\<lparr>dashboardData := Some (dashboard_data None)\<rparr>"
    by (simp add: lab_step_def rendered_def loadDashboardData_def)
  with n p show ?thesis
    by (simp add: not_ready_panel loadDashboardData_def dashboard_panel_def lab_init_def)
qed

text \<open>An instance: the not-ready answer loaded into the initial state.\<close>

theorem dashboard_not_ready_placeholder_witness:
  "status (dashboard_data None) = Some ''not ready''
   \<and> lab_crashed lab_init = None
   \<and> lab_crashed (lab_run lab_init [LoadDashboard (Response True (Some (dashboard_data None)))])
       = None
   \<and> dashboard_panel (lab_run lab_init [LoadDashboard (Response True (Some (dashboard_data None)))])
       = Inr Placeholder"
proof -
  have st: "status (dashboard_data None) = Some ''not ready''" by (simp add: dashboard_data_def)
  have c: "lab_crashed lab_init = None" by (simp add: lab_init_def)
  from dashboard_not_ready_placeholder[of "dashboard_data None" True lab_init] c
  have "lab_step lab_init (LoadDashboard (Response True (Some (dashboard_data None))))
      = lab_init\<lparr>dashboardData := Some (dashboard_data None)\<rparr>"
    and "dashboard_panel (loadDashboardData (Response True (Some (dashboard_data None))) lab_init)
      = Inr Placeholder"
    by blast+
  with st c show ?thesis by (simp add: loadDashboardData_def)
qed

end
